theory Spec2Isabelle
  imports Main
begin

section \<open>Addresses, handles and Python errors\<close>

text \<open>
  Modelled from the spec: the address classes of \<^verbatim>\<open>capa.features.address\<close>
  (\<^verbatim>\<open>NO_ADDRESS\<close>, \<^verbatim>\<open>AbsoluteVirtualAddress\<close>, \<^verbatim>\<open>DNTokenAddress\<close>,
  \<^verbatim>\<open>DNTokenOffsetAddress\<close>) are imported by both extractors and are not among the
  sources. Section 3 of the specification gives them as a tagged union with structural
  equality. Python integers are unbounded, so tokens, offsets and virtual addresses are
  \<open>int\<close>.
\<close>

datatype Address =
    NoAddress
  | AbsoluteVirtualAddress int
  | DNTokenAddress int
  | DNTokenOffsetAddress Address int

definition NO_ADDRESS :: Address where
  "NO_ADDRESS = NoAddress"

text \<open>
  Modelled from the spec: the handle classes of
  \<^verbatim>\<open>capa.features.extractors.base_extractor\<close> (an address, the backend object
  \<^verbatim>\<open>inner\<close>, and for functions the context \<^verbatim>\<open>ctx\<close>).
\<close>

record ('i, 'c) FunctionHandle =
  fh_address :: Address
  fh_inner :: 'i
  fh_ctx :: 'c

record 'i BBHandle =
  bbh_address :: Address
  bbh_inner :: 'i

record 'i InsnHandle =
  ih_address :: Address
  ih_inner :: 'i

datatype error = AssertionError | IndexError | KeyError

section \<open>The Python heap\<close>

text \<open>
  The objects that the extractors create and later mutate through references (the
  \<^verbatim>\<open>set()\<close> objects of the managed context, the \<^verbatim>\<open>cache\<close> dict of the native
  context) live in an explicit store. A reference is a cell number; \<open>fresh\<close> is the next
  unused cell.
\<close>

record 'a store =
  cells :: "nat \<Rightarrow> 'a"
  fresh :: nat

definition alloc :: "'a \<Rightarrow> 'a store \<Rightarrow> nat \<times> 'a store" where
  "alloc v st = (fresh st, st\<lparr>cells := (cells st)(fresh st := v), fresh := Suc (fresh st)\<rparr>)"

text \<open>\<^verbatim>\<open>s.add(a)\<close> for the set object at reference \<open>r\<close>.\<close>

definition set_add :: "nat \<Rightarrow> Address \<Rightarrow> Address set store \<Rightarrow> Address set store" where
  "set_add r a st = st\<lparr>cells := (cells st)(r := insert a (cells st r))\<rparr>"

section \<open>The managed backend: metadata and the token cache\<close>

text \<open>
  Modelled from the spec: the symbol classes \<^verbatim>\<open>DnType\<close> and \<^verbatim>\<open>DnUnmanagedMethod\<close>
  of \<^verbatim>\<open>capa.features.extractors.dnfile.types\<close>; each carries its token and the parts
  of its qualified name.
\<close>

datatype Symbol =
    DnType (token: int) (namespace: string) (class_name: string) (member: string)
  | DnUnmanagedMethod (token: int) (dll: string) (entry_point: string)

datatype OpCode = Nop | Call | Callvirt | Jmp | Newobj | Ldstr | Ldfld | Br | Ret | OtherOp nat

text \<open>
  A decoded CIL instruction (dncil). \<open>operand_value\<close> is \<^verbatim>\<open>insn.operand.value\<close>; the
  four opcodes whose operand the extractor reads all carry a method token.
\<close>

record Instruction =
  opcode :: OpCode
  operand_value :: int
  insn_offset :: int

record CilMethodBody =
  offset :: int
  header_size :: int
  instructions :: "Instruction list"

text \<open>
  The helper generators of \<^verbatim>\<open>capa.features.extractors.dnfile.helpers\<close> are not among
  the sources; what each of them yields for the loaded file is a field of the record that
  stands for \<^verbatim>\<open>dnfile.dnPE\<close>.
\<close>

record dnPE =
  get_dotnet_managed_imports :: "Symbol list"
  get_dotnet_unmanaged_imports :: "Symbol list"
  get_dotnet_managed_methods :: "Symbol list"
  get_dotnet_fields :: "Symbol list"
  get_dotnet_types :: "Symbol list"
  get_dotnet_managed_method_bodies :: "(int \<times> CilMethodBody) list"

record DnFileFeatureExtractorCache =
  cache_imports :: "int \<rightharpoonup> Symbol"
  cache_native_imports :: "int \<rightharpoonup> Symbol"
  cache_methods :: "int \<rightharpoonup> Symbol"
  cache_fields :: "int \<rightharpoonup> Symbol"
  cache_types :: "int \<rightharpoonup> Symbol"

text \<open>One loop of the constructor: \<^verbatim>\<open>for x in xs: d[x.token] = x\<close>, from the empty dict.\<close>

definition fill_table :: "Symbol list \<Rightarrow> (int \<rightharpoonup> Symbol)" where
  "fill_table xs = fold (\<lambda>x d. d(token x \<mapsto> x)) xs Map.empty"

definition cache_init :: "dnPE \<Rightarrow> DnFileFeatureExtractorCache" where
  "cache_init p =
     \<lparr>cache_imports = fill_table (get_dotnet_managed_imports p),
      cache_native_imports = fill_table (get_dotnet_unmanaged_imports p),
      cache_methods = fill_table (get_dotnet_managed_methods p),
      cache_fields = fill_table (get_dotnet_fields p),
      cache_types = fill_table (get_dotnet_types p)\<rparr>"

text \<open>\<^verbatim>\<open>dict.get(token)\<close>: the value, or \<^verbatim>\<open>None\<close> for a missing key.\<close>

definition get_import :: "DnFileFeatureExtractorCache \<Rightarrow> int \<Rightarrow> Symbol option" where
  "get_import c t = cache_imports c t"

definition get_native_import :: "DnFileFeatureExtractorCache \<Rightarrow> int \<Rightarrow> Symbol option" where
  "get_native_import c t = cache_native_imports c t"

definition get_method :: "DnFileFeatureExtractorCache \<Rightarrow> int \<Rightarrow> Symbol option" where
  "get_method c t = cache_methods c t"

definition get_field :: "DnFileFeatureExtractorCache \<Rightarrow> int \<Rightarrow> Symbol option" where
  "get_field c t = cache_fields c t"

definition get_type :: "DnFileFeatureExtractorCache \<Rightarrow> int \<Rightarrow> Symbol option" where
  "get_type c t = cache_types c t"

section \<open>The managed extractor\<close>

text \<open>
  The constructor parses the file and precomputes the token cache (the sample hashes and
  the global features play no part below).
\<close>

record DnfileFeatureExtractor =
  pe :: dnPE
  min_str_len :: int
  token_cache :: DnFileFeatureExtractorCache

definition dn_init :: "dnPE \<Rightarrow> int \<Rightarrow> DnfileFeatureExtractor" where
  "dn_init p n = \<lparr>pe = p, min_str_len = n, token_cache = cache_init p\<rparr>"

definition dn_get_base_address :: "DnfileFeatureExtractor \<Rightarrow> Address" where
  "dn_get_base_address self = NO_ADDRESS"

text \<open>
  The context dict of a managed function handle. \<open>calls_from\<close> and \<open>calls_to\<close> hold
  references to set objects in the store.
\<close>

record dn_ctx =
  ctx_pe :: dnPE
  calls_from :: nat
  calls_to :: nat
  ctx_cache :: DnFileFeatureExtractorCache
  ctx_min_str_len :: int

type_synonym dn_fh = "(CilMethodBody, dn_ctx) FunctionHandle"

text \<open>
  \<^verbatim>\<open>methods: dict[Address, FunctionHandle]\<close>: a Python dict keeps insertion order,
  and the keys are kept distinct by the assertion, so the dict is the list of its items.
\<close>

type_synonym methods_dict = "(Address \<times> dn_fh) list"

text \<open>
  The first loop of \<^verbatim>\<open>get_functions\<close>. The dict display evaluates
  \<^verbatim>\<open>"calls_from": set()\<close> before \<^verbatim>\<open>"calls_to": set()\<close>.
\<close>

fun create_method_lookup ::
  "DnfileFeatureExtractor \<Rightarrow> (int \<times> CilMethodBody) list \<Rightarrow> methods_dict \<Rightarrow> Address set store
     \<Rightarrow> error + (methods_dict \<times> Address set store)" where
  "create_method_lookup self [] methods st = Inr (methods, st)"
| "create_method_lookup self ((tok, method) # rest) methods st =
     (let (cf, st1) = alloc {} st;
          (ct, st2) = alloc {} st1;
          fh = \<lparr>fh_address = DNTokenAddress tok, fh_inner = method,
                fh_ctx = \<lparr>ctx_pe = pe self, calls_from = cf, calls_to = ct,
                          ctx_cache = token_cache self, ctx_min_str_len = min_str_len self\<rparr>\<rparr>
      in if fh_address fh \<in> set (map fst methods) then Inl AssertionError
         else create_method_lookup self rest (methods @ [(fh_address fh, fh)]) st2)"

text \<open>The body of the inner loop of the call-graph pass, for one instruction.\<close>

definition scan_insn :: "methods_dict \<Rightarrow> dn_fh \<Rightarrow> Instruction \<Rightarrow> Address set store \<Rightarrow> Address set store" where
  "scan_insn methods fh insn st =
     (if opcode insn \<notin> set [Call, Callvirt, Jmp, Newobj] then st
      else
        let address = DNTokenAddress (operand_value insn);
            st1 = (case map_of methods address of
                     None \<Rightarrow> st
                   | Some dest \<Rightarrow> set_add (calls_to (fh_ctx dest)) (fh_address fh) st)
        in set_add (calls_from (fh_ctx fh)) address st1)"

definition scan_method :: "methods_dict \<Rightarrow> dn_fh \<Rightarrow> Address set store \<Rightarrow> Address set store" where
  "scan_method methods fh st = fold (scan_insn methods fh) (instructions (fh_inner fh)) st"

definition calculate_calls :: "methods_dict \<Rightarrow> Address set store \<Rightarrow> Address set store" where
  "calculate_calls methods st = fold (scan_method methods) (map snd methods) st"

text \<open>
  Everything \<^verbatim>\<open>get_functions\<close> does before its \<^verbatim>\<open>yield from\<close>: the handles of
  \<^verbatim>\<open>methods.values()\<close> and the store after the call-graph pass, or the assertion
  failure.
\<close>

definition dn_get_functions ::
  "DnfileFeatureExtractor \<Rightarrow> Address set store \<Rightarrow> error + (dn_fh list \<times> Address set store)" where
  "dn_get_functions self st =
     (case create_method_lookup self (get_dotnet_managed_method_bodies (pe self)) [] st of
        Inl e \<Rightarrow> Inl e
      | Inr (methods, st1) \<Rightarrow> Inr (map snd methods, calculate_calls methods st1))"

text \<open>
  \<^verbatim>\<open>get_functions\<close> is a generator: nothing runs until the first \<^verbatim>\<open>next()\<close>, which
  runs the body up to the first \<^verbatim>\<open>yield\<close>; every later \<^verbatim>\<open>next()\<close> resumes inside
  \<^verbatim>\<open>yield from methods.values()\<close>. \<open>None\<close> is \<^verbatim>\<open>StopIteration\<close>.
\<close>

datatype dn_generator = NotStarted | Yielding "dn_fh list" | Exhausted

fun dn_get_functions_next ::
  "DnfileFeatureExtractor \<Rightarrow> dn_generator \<Rightarrow> Address set store
     \<Rightarrow> error + (dn_fh option \<times> dn_generator \<times> Address set store)" where
  "dn_get_functions_next self NotStarted st =
     (case dn_get_functions self st of
        Inl e \<Rightarrow> Inl e
      | Inr ([], st') \<Rightarrow> Inr (None, Exhausted, st')
      | Inr (h # hs, st') \<Rightarrow> Inr (Some h, Yielding hs, st'))"
| "dn_get_functions_next self (Yielding []) st = Inr (None, Exhausted, st)"
| "dn_get_functions_next self (Yielding (h # hs)) st = Inr (Some h, Yielding hs, st)"
| "dn_get_functions_next self Exhausted st = Inr (None, Exhausted, st)"

text \<open>
  A caller that calls \<^verbatim>\<open>next()\<close> up to \<open>n\<close> times and records every handle it gets
  together with the store at that moment.
\<close>

fun observe ::
  "DnfileFeatureExtractor \<Rightarrow> nat \<Rightarrow> dn_generator \<Rightarrow> Address set store
     \<Rightarrow> error + (dn_fh \<times> Address set store) list" where
  "observe self 0 g st = Inr []"
| "observe self (Suc n) g st =
     (case dn_get_functions_next self g st of
        Inl e \<Rightarrow> Inl e
      | Inr (None, g', st') \<Rightarrow> Inr []
      | Inr (Some h, g', st') \<Rightarrow>
          (case observe self n g' st' of
             Inl e \<Rightarrow> Inl e
           | Inr obs \<Rightarrow> Inr ((h, st') # obs)))"

type_synonym dn_bbh = "CilMethodBody BBHandle"

definition dn_get_basic_blocks :: "DnfileFeatureExtractor \<Rightarrow> dn_fh \<Rightarrow> dn_bbh list" where
  "dn_get_basic_blocks self f = [\<lparr>bbh_address = fh_address f, bbh_inner = fh_inner f\<rparr>]"

definition dn_extract_basic_block_features ::
  "DnfileFeatureExtractor \<Rightarrow> dn_fh \<Rightarrow> dn_bbh \<Rightarrow> ('f \<times> Address) list" where
  "dn_extract_basic_block_features self fh bbh = []"

definition dn_get_instructions ::
  "DnfileFeatureExtractor \<Rightarrow> dn_fh \<Rightarrow> dn_bbh \<Rightarrow> Instruction InsnHandle list" where
  "dn_get_instructions self fh bbh =
     map (\<lambda>insn. \<lparr>ih_address = DNTokenOffsetAddress (bbh_address bbh)
                                  (insn_offset insn - (offset (fh_inner fh) + header_size (fh_inner fh))),
                  ih_inner = insn\<rparr>)
         (instructions (bbh_inner bbh))"

section \<open>The native backend\<close>

text \<open>
  What the extractor reads of the vivisect workspace and of \<^verbatim>\<open>viv_utils\<close> (external
  libraries): the function addresses, the per-file metadata dicts in insertion order, and
  the basic blocks that \<^verbatim>\<open>viv_utils.Function(vw, va).basic_blocks\<close> gives.
\<close>

record viv_insn =
  va :: int
  mnem :: string

record BasicBlock =
  bb_va :: int
  bb_instructions :: "viv_insn list"

record viv_Function =
  f_va :: int
  basic_blocks :: "BasicBlock list"

record Workspace =
  getFunctions :: "int list"
  filemeta :: "(string \<times> (string \<rightharpoonup> int)) list"
  function_blocks :: "int \<Rightarrow> BasicBlock list"

definition viv_utils_Function :: "Workspace \<Rightarrow> int \<Rightarrow> viv_Function" where
  "viv_utils_Function w a = \<lparr>f_va = a, basic_blocks = function_blocks w a\<rparr>"

record VivisectFeatureExtractor =
  vw :: Workspace
  viv_min_str_len :: int

text \<open>
  \<^verbatim>\<open>list(self.vw.filemeta.values())[0]["imagebase"]\<close>: indexing an empty list raises
  \<^verbatim>\<open>IndexError\<close>, a missing key raises \<^verbatim>\<open>KeyError\<close>.
\<close>

definition viv_get_base_address :: "VivisectFeatureExtractor \<Rightarrow> error + Address" where
  "viv_get_base_address self =
     (case map snd (filemeta (vw self)) of
        [] \<Rightarrow> Inl IndexError
      | m # _ \<Rightarrow> (case m ''imagebase'' of
                    None \<Rightarrow> Inl KeyError
                  | Some b \<Rightarrow> Inr (AbsoluteVirtualAddress b)))"

text \<open>The context dict of a native function handle; \<open>viv_cache\<close> is a reference to a dict.\<close>

record viv_ctx =
  viv_cache :: nat
  viv_ctx_min_str_len :: int

type_synonym viv_fh = "(viv_Function, viv_ctx) FunctionHandle"

text \<open>
  \<^verbatim>\<open>cache: dict[str, Any] = {}\<close> is evaluated once, before the loop over
  \<^verbatim>\<open>sorted(self.vw.getFunctions())\<close>.
\<close>

definition viv_get_functions ::
  "VivisectFeatureExtractor \<Rightarrow> (string \<rightharpoonup> 'v) store \<Rightarrow> viv_fh list \<times> (string \<rightharpoonup> 'v) store" where
  "viv_get_functions self st =
     (let (cache, st1) = alloc Map.empty st
      in (map (\<lambda>a. \<lparr>fh_address = AbsoluteVirtualAddress a,
                     fh_inner = viv_utils_Function (vw self) a,
                     fh_ctx = \<lparr>viv_cache = cache, viv_ctx_min_str_len = viv_min_str_len self\<rparr>\<rparr>)
              (sort (getFunctions (vw self))),
          st1))"

type_synonym viv_bbh = "BasicBlock BBHandle"

definition viv_get_basic_blocks :: "VivisectFeatureExtractor \<Rightarrow> viv_fh \<Rightarrow> viv_bbh list" where
  "viv_get_basic_blocks self fh =
     map (\<lambda>bb. \<lparr>bbh_address = AbsoluteVirtualAddress (bb_va bb), bbh_inner = bb\<rparr>)
         (basic_blocks (fh_inner fh))"

definition viv_get_instructions ::
  "VivisectFeatureExtractor \<Rightarrow> viv_fh \<Rightarrow> viv_bbh \<Rightarrow> viv_insn InsnHandle list" where
  "viv_get_instructions self fh bbh =
     map (\<lambda>insn. \<lparr>ih_address = AbsoluteVirtualAddress (va insn), ih_inner = insn\<rparr>)
         (bb_instructions (bbh_inner bbh))"

section \<open>Basic blocks of a managed method\<close>

text \<open>
  C9. For every managed method handle, \<^verbatim>\<open>get_basic_blocks\<close> yields exactly one
  basic-block handle; its address is the method's own address (and its inner object the
  method body), and \<^verbatim>\<open>extract_basic_block_features\<close> on that block yields no feature.
\<close>

theorem dn_single_basic_block:
  "length (dn_get_basic_blocks self f) = 1
   \<and> map bbh_address (dn_get_basic_blocks self f) = [fh_address f]
   \<and> map bbh_inner (dn_get_basic_blocks self f) = [fh_inner f]
   \<and> concat (map (dn_extract_basic_block_features self f) (dn_get_basic_blocks self f)) = []"
  by (simp add: dn_get_basic_blocks_def dn_extract_basic_block_features_def)

end
